theory Spec2Isabelle
  imports Main
begin

section \<open>The URL configuration of the PKI backend (path_config_urls.go)\<close>

text \<open>
  The handlers of the path \<open>config/urls\<close> load one record of three URL lists from the
  request's storage, replace the lists the request names, validate, and store the record
  again. The functions of the source file are embedded one by one; what they call from
  other packages is either a parameter (the URL parser) or a small model described where
  it is introduced.
\<close>

subsection \<open>Data\<close>

text \<open>The struct \<open>urlEntries\<close> (lines 149-153).\<close>

record urlEntries =
  IssuingCertificates :: "string list"
  CRLDistributionPoints :: "string list"
  OCSPServers :: "string list"

text \<open>
  The errors the handlers can return. \<open>Errorf\<close> carries the message of an error built
  by \<open>fmt.Errorf\<close>; the other two are the error kinds the specification names for the
  store and the codec.
\<close>

datatype error = StorageUnavailable | EncodingError | Errorf string

text \<open>
  Modelled from the spec: the byte value of a \<open>logical.StorageEntry\<close> (package
  \<open>logical\<close> is not among the sources). Save "serializes and writes the record" and
  Load fails on a value that is "corrupt-on-decode", so a stored value is either the
  encoding of a record, which decodes to that record, or bytes that do not decode. The
  codec is taken to lose nothing: what JSON does to the bytes of a string is not
  modelled.
\<close>

datatype bytes = JSON urlEntries | Corrupt

record StorageEntry =
  Key :: string
  Value :: bytes

text \<open>
  Modelled from the spec: \<open>logical.StorageEntryJSON\<close> and \<open>StorageEntry.DecodeJSON\<close>.
  Encoding three lists of strings always yields an entry; decoding fails with
  \<open>EncodingError\<close> on corrupt bytes.
\<close>

definition StorageEntryJSON :: "string \<Rightarrow> urlEntries \<Rightarrow> error + StorageEntry option" where
  "StorageEntryJSON k v = Inr (Some \<lparr>Key = k, Value = JSON v\<rparr>)"

definition DecodeJSON :: "StorageEntry \<Rightarrow> error + urlEntries" where
  "DecodeJSON entry = (case Value entry of JSON v \<Rightarrow> Inr v | Corrupt \<Rightarrow> Inl EncodingError)"

text \<open>
  Modelled from the spec: the key-value store behind \<open>logical.Storage\<close>, which provides
  get and put by key. A store that cannot be read or written fails with
  \<open>StorageUnavailable\<close>; a key that was never written is found absent, which is not an
  error; a put overwrites the value of its key, all or nothing.
\<close>

record Storage =
  cells :: "string \<rightharpoonup> bytes"
  get_fails :: bool
  put_fails :: bool

definition Storage_Get :: "Storage \<Rightarrow> string \<Rightarrow> error + StorageEntry option" where
  "Storage_Get s key =
     (if get_fails s then Inl StorageUnavailable
      else (case cells s key of
              None \<Rightarrow> Inr None
            | Some v \<Rightarrow> Inr (Some \<lparr>Key = key, Value = v\<rparr>)))"

definition Storage_Put :: "Storage \<Rightarrow> StorageEntry \<Rightarrow> error + Storage" where
  "Storage_Put s entry =
     (if put_fails s then Inl StorageUnavailable
      else Inr (s\<lparr>cells := (cells s)(Key entry \<mapsto> Value entry)\<rparr>))"

text \<open>A store in which nothing was ever written and which does not fail.\<close>

definition new_Storage :: Storage where
  "new_Storage = \<lparr>cells = Map.empty, get_fails = False, put_fails = False\<rparr>"

text \<open>
  Modelled from the spec: \<open>framework.FieldData\<close> for the three fields of type string,
  "three independent optional string values": \<open>GetOk\<close> tells a field that was omitted
  from one that is present, also when it is present and empty.
\<close>

type_synonym FieldData = "string \<rightharpoonup> string"

definition GetOk :: "FieldData \<Rightarrow> string \<Rightarrow> string option" where
  "GetOk data k = data k"

text \<open>
  Modelled from the spec: \<open>logical.Response\<close>. A response is either an error response
  "carrying a human-readable message" or the data of a read, "a flat key to value shape
  mirroring the field names".
\<close>

datatype Response = ErrorResponse string | Data "string \<rightharpoonup> string list"

text \<open>
  \<open>structs.New(entries).Map()\<close>: the fields of the struct under the names of their
  \<open>structs\<close> tags (lines 150-152).
\<close>

definition structs_Map :: "urlEntries \<Rightarrow> (string \<rightharpoonup> string list)" where
  "structs_Map entries =
     [''issuing_certificates'' \<mapsto> IssuingCertificates entries,
      ''crl_distribution_points'' \<mapsto> CRLDistributionPoints entries,
      ''ocsp_servers'' \<mapsto> OCSPServers entries]"

subsection \<open>Library functions\<close>

text \<open>
  \<open>strings.Split(s, sep)\<close> of the Go library for a separator of one byte: the pieces of
  \<open>s\<close> between the separators, in order; a string without separator, the empty string
  included, gives one piece.
\<close>

primrec Split :: "string \<Rightarrow> char \<Rightarrow> string list" where
  "Split [] sep = [[]]"
| "Split (c # s) sep =
     (if c = sep then [] # Split s sep
      else (case Split s sep of
              [] \<Rightarrow> [[c]]
            | t # ts \<Rightarrow> (c # t) # ts))"

text \<open>
  \<open>url.Parse\<close> is a parameter of the model, written \<open>Parse\<close>: it takes the string and
  returns the message of the parser's error, or \<open>None\<close> when the string parses.
\<close>

type_synonym parser = "string \<Rightarrow> string option"

subsection \<open>The functions of the source\<close>

text \<open>
  \<open>validateURLs\<close> (lines 46-54) returns the first element that does not parse together
  with the parser's error; \<open>None\<close> stands for the pair of the empty string and \<open>nil\<close>.
\<close>

primrec validateURLs :: "parser \<Rightarrow> string list \<Rightarrow> (string \<times> string) option" where
  "validateURLs Parse [] = None"
| "validateURLs Parse (curr' # urls) =
     (case Parse curr' of
        Some err \<Rightarrow> Some (curr', err)
      | None \<Rightarrow> validateURLs Parse urls)"

text \<open>\<open>getURLs\<close> (lines 56-71): the record under the key \<open>urls\<close>, if there is one.\<close>

definition getURLs :: "Storage \<Rightarrow> error + urlEntries option" where
  "getURLs req_Storage =
     (case Storage_Get req_Storage ''urls'' of
        Inl err \<Rightarrow> Inl err
      | Inr None \<Rightarrow> Inr None
      | Inr (Some entry) \<Rightarrow>
          (case DecodeJSON entry of
             Inl err \<Rightarrow> Inl err
           | Inr entries \<Rightarrow> Inr (Some entries)))"

text \<open>
  \<open>writeURLs\<close> (lines 73-88) returns the error, or the storage after the put.
\<close>

definition writeURLs :: "Storage \<Rightarrow> urlEntries \<Rightarrow> error + Storage" where
  "writeURLs req_Storage entries =
     (case StorageEntryJSON ''urls'' entries of
        Inl err \<Rightarrow> Inl err
      | Inr None \<Rightarrow> Inl (Errorf ''Unable to marshal entry into JSON'')
      | Inr (Some entry) \<Rightarrow>
          (case Storage_Put req_Storage entry of
             Inl err \<Rightarrow> Inl err
           | Inr req_Storage' \<Rightarrow> Inr req_Storage'))"

text \<open>
  \<open>pathReadURL\<close> (lines 90-105) returns the pair of the source as a sum: the error, or
  the response, which is \<open>None\<close> for \<open>nil\<close>.
\<close>

definition pathReadURL :: "Storage \<Rightarrow> error + Response option" where
  "pathReadURL req_Storage =
     (case getURLs req_Storage of
        Inl err \<Rightarrow> Inl err
      | Inr None \<Rightarrow> Inr None
      | Inr (Some entries) \<Rightarrow> Inr (Some (Data (structs_Map entries))))"

text \<open>
  \<open>pathWriteURL\<close> (lines 107-147) returns its pair as a sum, together with the storage
  after the call. Each of the three blocks sets its list and then validates the list
  \<open>entries.CRLDistributionPoints\<close>, as lines 124, 132 and 140 do; a block that finds an
  invalid URL returns its error response and the storage is as before.
\<close>

definition pathWriteURL :: "parser \<Rightarrow> Storage \<Rightarrow> FieldData \<Rightarrow> (error + Response option) \<times> Storage" where
  "pathWriteURL Parse req_Storage data =
     (case getURLs req_Storage of
        Inl err \<Rightarrow> (Inl err, req_Storage)
      | Inr loaded \<Rightarrow>
          (let entries =
                 (case loaded of
                    None \<Rightarrow> \<lparr>IssuingCertificates = [], CRLDistributionPoints = [], OCSPServers = []\<rparr>
                  | Some entries \<Rightarrow> entries)
           in
           case (case GetOk data ''issuing_certificates'' of
                   None \<Rightarrow> Inr entries
                 | Some urlsInt \<Rightarrow>
                     (let splitURLs = Split urlsInt CHR '','';
                          entries = entries\<lparr>IssuingCertificates := splitURLs\<rparr>
                      in case validateURLs Parse (CRLDistributionPoints entries) of
                           Some (badUrl, err) \<Rightarrow>
                             Inl (ErrorResponse
                               (''invalid URL found in issuing certificates; url is '' @ badUrl
                                  @ '', error is '' @ err))
                         | None \<Rightarrow> Inr entries)) of
             Inl resp \<Rightarrow> (Inr (Some resp), req_Storage)
           | Inr entries \<Rightarrow>
          (case (case GetOk data ''crl_distribution_points'' of
                   None \<Rightarrow> Inr entries
                 | Some urlsInt \<Rightarrow>
                     (let splitURLs = Split urlsInt CHR '','';
                          entries = entries\<lparr>CRLDistributionPoints := splitURLs\<rparr>
                      in case validateURLs Parse (CRLDistributionPoints entries) of
                           Some (badUrl, err) \<Rightarrow>
                             Inl (ErrorResponse
                               (''invalid URL found in CRL distribution points; url is '' @ badUrl
                                  @ '', error is '' @ err))
                         | None \<Rightarrow> Inr entries)) of
             Inl resp \<Rightarrow> (Inr (Some resp), req_Storage)
           | Inr entries \<Rightarrow>
          (case (case GetOk data ''ocsp_servers'' of
                   None \<Rightarrow> Inr entries
                 | Some urlsInt \<Rightarrow>
                     (let splitURLs = Split urlsInt CHR '','';
                          entries = entries\<lparr>OCSPServers := splitURLs\<rparr>
                      in case validateURLs Parse (CRLDistributionPoints entries) of
                           Some (badUrl, err) \<Rightarrow>
                             Inl (ErrorResponse
                               (''invalid URL found in OCSP servers; url is '' @ badUrl
                                  @ '', error is '' @ err))
                         | None \<Rightarrow> Inr entries)) of
             Inl resp \<Rightarrow> (Inr (Some resp), req_Storage)
           | Inr entries \<Rightarrow>
          (case writeURLs req_Storage entries of
             Inl err \<Rightarrow> (Inl err, req_Storage)
           | Inr req_Storage' \<Rightarrow> (Inr None, req_Storage'))))))"

subsection \<open>What a write computes\<close>

text \<open>
  The record \<open>pathWriteURL\<close> starts from (lines 113-119): the loaded one, or three empty
  lists when none was stored.
\<close>

definition or_empty :: "urlEntries option \<Rightarrow> urlEntries" where
  "or_empty loaded =
     (case loaded of
        None \<Rightarrow> \<lparr>IssuingCertificates = [], CRLDistributionPoints = [], OCSPServers = []\<rparr>
      | Some entries \<Rightarrow> entries)"

text \<open>
  The record after the assignments of lines 123, 131 and 139: a field the request names
  holds the pieces of its string, the others are as before.
\<close>

definition replaced :: "FieldData \<Rightarrow> urlEntries \<Rightarrow> urlEntries" where
  "replaced data entries =
     \<lparr>IssuingCertificates =
        (case GetOk data ''issuing_certificates'' of
           None \<Rightarrow> IssuingCertificates entries
         | Some urlsInt \<Rightarrow> Split urlsInt CHR '',''),
      CRLDistributionPoints =
        (case GetOk data ''crl_distribution_points'' of
           None \<Rightarrow> CRLDistributionPoints entries
         | Some urlsInt \<Rightarrow> Split urlsInt CHR '',''),
      OCSPServers =
        (case GetOk data ''ocsp_servers'' of
           None \<Rightarrow> OCSPServers entries
         | Some urlsInt \<Rightarrow> Split urlsInt CHR '','')\<rparr>"

text \<open>
  The three validations of lines 124, 132 and 140 taken together. All of them read the
  list of CRL distribution points: the first block the one it started from, the other
  two the one that stands after the second block.
\<close>

definition accepted :: "parser \<Rightarrow> FieldData \<Rightarrow> urlEntries \<Rightarrow> bool" where
  "accepted Parse data entries =
     ((GetOk data ''issuing_certificates'' = None \<or>
         validateURLs Parse (CRLDistributionPoints entries) = None) \<and>
      ((GetOk data ''crl_distribution_points'' = None \<and> GetOk data ''ocsp_servers'' = None) \<or>
         validateURLs Parse (CRLDistributionPoints (replaced data entries)) = None))"

text \<open>The storage after a put of the record under the key \<open>urls\<close>.\<close>

definition put_urls :: "Storage \<Rightarrow> urlEntries \<Rightarrow> Storage" where
  "put_urls s entries = s\<lparr>cells := (cells s)(''urls'' \<mapsto> JSON entries)\<rparr>"

text \<open>
  The storages the handler can meet: one in which the key was never written, one left by
  a call of \<open>pathWriteURL\<close>, and any of these with the store's availability changed.
\<close>

inductive reachable :: "parser \<Rightarrow> Storage \<Rightarrow> bool" for Parse :: parser where
  never_written: "cells s ''urls'' = None \<Longrightarrow> reachable Parse s"
| written: "reachable Parse s \<Longrightarrow> pathWriteURL Parse s data = (r, s') \<Longrightarrow> reachable Parse s'"
| availability: "reachable Parse s \<Longrightarrow> reachable Parse (s\<lparr>get_fails := g, put_fails := p\<rparr>)"

text \<open>The stored record, if any, decodes and its CRL distribution points validate.\<close>

definition CRL_valid :: "parser \<Rightarrow> Storage \<Rightarrow> bool" where
  "CRL_valid Parse s =
     (case cells s ''urls'' of
        None \<Rightarrow> True
      | Some (JSON entries) \<Rightarrow> validateURLs Parse (CRLDistributionPoints entries) = None
      | Some Corrupt \<Rightarrow> False)"

subsection \<open>Concrete inputs\<close>

text \<open>
  An instance of the parser parameter for evaluating the handlers on concrete requests.
  It reports an error for a string with a percent sign that is not followed by two
  hexadecimal digits, and accepts every other string.
\<close>

fun ishex :: "char \<Rightarrow> bool" where
  "ishex c = (c \<in> set ''0123456789abcdefABCDEF'')"

fun bad_escape :: "string \<Rightarrow> bool" where
  "bad_escape [] = False"
| "bad_escape (c # s) =
     (if c = CHR ''%''
      then (case s of
              a # b # rest \<Rightarrow> (if ishex a \<and> ishex b then bad_escape rest else True)
            | _ \<Rightarrow> True)
      else bad_escape s)"

definition sample_Parse :: parser where
  "sample_Parse rawurl = (if bad_escape rawurl then Some ''invalid URL escape'' else None)"

text \<open>A storage that holds a record and does not fail.\<close>

definition sample_Storage :: Storage where
  "sample_Storage =
     \<lparr>cells = [''urls'' \<mapsto> JSON \<lparr>IssuingCertificates = [''http://ca''],
                                  CRLDistributionPoints = [''http://crl''],
                                  OCSPServers = []\<rparr>],
      get_fails = False, put_fails = False\<rparr>"

subsection \<open>The specification's reading of the split\<close>

text \<open>
  Section 4.2 of the specification has the string split "into an ordered sequence of
  trimmed URL strings". \<open>spec_trimmed_Split\<close> follows these words: the pieces, each
  without its leading and trailing white space. It is compared with what the source
  stores; the source itself has no such step.
\<close>

definition isSpace :: "char \<Rightarrow> bool" where
  "isSpace c = (c \<in> set [CHR '' '', CHR 0x09, CHR 0x0A, CHR 0x0B, CHR 0x0C, CHR 0x0D])"

definition TrimSpace :: "string \<Rightarrow> string" where
  "TrimSpace s = rev (dropWhile isSpace (rev (dropWhile isSpace s)))"

definition spec_trimmed_Split :: "string \<Rightarrow> string list" where
  "spec_trimmed_Split s = map TrimSpace (Split s CHR '','')"

section \<open>Properties\<close>

subsection \<open>Splitting\<close>

lemma Split_not_Nil: "Split s sep \<noteq> []"
  by (induction s) (simp_all split: list.splits)

lemma Split_no_sep: "t \<in> set (Split s sep) \<Longrightarrow> sep \<notin> set t"
  by (induction s arbitrary: t) (auto split: if_splits list.splits)

lemma Split_joined: "concat (map (\<lambda>t. sep # t) (Split s sep)) = sep # s"
proof (induction s)
  case Nil
  show ?case by simp
next
  case (Cons c s)
  obtain t ts where "Split s sep = t # ts"
    using Split_not_Nil [of s sep] by (cases "Split s sep") auto
  with Cons show ?case by simp
qed

subsection \<open>Load and save\<close>

lemma getURLs_eq:
  "getURLs s =
     (if get_fails s then Inl StorageUnavailable
      else (case cells s ''urls'' of
              None \<Rightarrow> Inr None
            | Some (JSON v) \<Rightarrow> Inr (Some v)
            | Some Corrupt \<Rightarrow> Inl EncodingError))"
  by (simp add: getURLs_def Storage_Get_def DecodeJSON_def split: option.splits bytes.splits)

lemma writeURLs_eq:
  "writeURLs s entries = (if put_fails s then Inl StorageUnavailable else Inr (put_urls s entries))"
  by (simp add: writeURLs_def StorageEntryJSON_def Storage_Put_def put_urls_def)

lemma getURLs_put_urls:
  "getURLs (put_urls s entries) = (if get_fails s then Inl StorageUnavailable else Inr (Some entries))"
  by (simp add: getURLs_eq put_urls_def)

lemma getURLs_Inr_reads: "getURLs s = Inr loaded \<Longrightarrow> \<not> get_fails s"
  by (auto simp: getURLs_eq split: if_splits)

lemma put_urls_twice: "put_urls (put_urls s entries) entries = put_urls s entries"
  by (simp add: put_urls_def)

lemma pathReadURL_put_urls:
  "\<not> get_fails s \<Longrightarrow> pathReadURL (put_urls s entries) = Inr (Some (Data (structs_Map entries)))"
  by (simp add: pathReadURL_def getURLs_put_urls)

subsection \<open>The outcomes of a write\<close>

lemma replaced_updates:
  "replaced data e =
     (let e1 = (case GetOk data ''issuing_certificates'' of
                  None \<Rightarrow> e | Some u \<Rightarrow> e\<lparr>IssuingCertificates := Split u CHR '',''\<rparr>);
          e2 = (case GetOk data ''crl_distribution_points'' of
                  None \<Rightarrow> e1 | Some u \<Rightarrow> e1\<lparr>CRLDistributionPoints := Split u CHR '',''\<rparr>)
      in (case GetOk data ''ocsp_servers'' of
                  None \<Rightarrow> e2 | Some u \<Rightarrow> e2\<lparr>OCSPServers := Split u CHR '',''\<rparr>))"
  by (cases e) (simp add: replaced_def Let_def split: option.splits)

lemma replaced_idem: "replaced data (replaced data entries) = replaced data entries"
  by (simp add: replaced_def split: option.splits)

lemma accepted_replaced:
  "accepted Parse data entries \<Longrightarrow> accepted Parse data (replaced data entries)"
  by (cases "GetOk data ''crl_distribution_points''")
     (auto simp add: accepted_def replaced_def)

lemma pathWriteURL_Inl: "getURLs s = Inl err \<Longrightarrow> pathWriteURL Parse s data = (Inl err, s)"
  by (simp add: pathWriteURL_def)

lemma pathWriteURL_accepted:
  assumes "getURLs s = Inr loaded" and "accepted Parse data (or_empty loaded)"
  shows "pathWriteURL Parse s data =
           (if put_fails s then (Inl StorageUnavailable, s)
            else (Inr None, put_urls s (replaced data (or_empty loaded))))"
proof (cases "GetOk data ''issuing_certificates''"; cases "GetOk data ''crl_distribution_points''";
    cases "GetOk data ''ocsp_servers''")
qed (use assms in \<open>auto simp add: pathWriteURL_def accepted_def replaced_updates or_empty_def
       writeURLs_eq Let_def split: option.splits\<close>)

lemma pathWriteURL_rejected:
  assumes "getURLs s = Inr loaded" and "\<not> accepted Parse data (or_empty loaded)"
  shows "\<exists>msg. pathWriteURL Parse s data = (Inr (Some (ErrorResponse msg)), s)"
proof (cases "GetOk data ''issuing_certificates''"; cases "GetOk data ''crl_distribution_points''";
    cases "GetOk data ''ocsp_servers''")
qed (use assms in \<open>auto simp add: pathWriteURL_def accepted_def replaced_updates or_empty_def
       writeURLs_eq Let_def split: option.splits\<close>)

text \<open>
  The second block does validate the list it has just set: an invalid element of the new
  CRL distribution points aborts the write with the error response of line 133, unless
  the first block has already returned.
\<close>

lemma invalid_crl_rejected:
  assumes "getURLs s = Inr loaded"
    and "GetOk data ''issuing_certificates'' = None \<or>
         validateURLs Parse (CRLDistributionPoints (or_empty loaded)) = None"
    and "GetOk data ''crl_distribution_points'' = Some urlsInt"
    and "validateURLs Parse (Split urlsInt CHR '','') = Some (badUrl, err)"
  shows "pathWriteURL Parse s data =
           (Inr (Some (ErrorResponse
              (''invalid URL found in CRL distribution points; url is '' @ badUrl
                 @ '', error is '' @ err))), s)"
proof (cases "GetOk data ''issuing_certificates''")
qed (use assms in \<open>auto simp add: pathWriteURL_def or_empty_def Let_def split: option.splits\<close>)

lemma pathWriteURL_storage:
  "snd (pathWriteURL Parse s data) = s \<and> fst (pathWriteURL Parse s data) \<noteq> Inr None \<or>
   (\<exists>loaded. getURLs s = Inr loaded \<and> accepted Parse data (or_empty loaded) \<and> \<not> put_fails s \<and>
      pathWriteURL Parse s data = (Inr None, put_urls s (replaced data (or_empty loaded))))"
proof (cases "getURLs s")
  case (Inl err)
  then show ?thesis by (simp add: pathWriteURL_Inl)
next
  case (Inr loaded)
  show ?thesis
  proof (cases "accepted Parse data (or_empty loaded)")
    case True
    with Inr show ?thesis
      by (auto simp: pathWriteURL_accepted split: if_splits)
  next
    case False
    with Inr pathWriteURL_rejected [of s loaded Parse data] show ?thesis
      by auto
  qed
qed

lemma pathWriteURL_succeeds:
  assumes "pathWriteURL Parse s data = (Inr None, s')"
  shows "\<exists>loaded. getURLs s = Inr loaded \<and> accepted Parse data (or_empty loaded) \<and>
           \<not> put_fails s \<and> s' = put_urls s (replaced data (or_empty loaded))"
  using pathWriteURL_storage [of Parse s data] assms by auto

subsection \<open>Every stored list of CRL distribution points validates\<close>

lemma CRL_valid_loaded:
  assumes "CRL_valid Parse s" and "\<not> get_fails s"
  shows "\<exists>loaded. getURLs s = Inr loaded \<and>
           validateURLs Parse (CRLDistributionPoints (or_empty loaded)) = None"
  using assms
  by (auto simp: CRL_valid_def getURLs_eq or_empty_def split: option.splits bytes.splits)

lemma CRL_valid_put_urls:
  assumes "CRL_valid Parse s" and "getURLs s = Inr loaded"
    and "accepted Parse data (or_empty loaded)"
  shows "CRL_valid Parse (put_urls s (replaced data (or_empty loaded)))"
proof -
  from assms(2) have "\<not> get_fails s" by (rule getURLs_Inr_reads)
  with assms(1,2) CRL_valid_loaded [of Parse s]
  have old: "validateURLs Parse (CRLDistributionPoints (or_empty loaded)) = None" by auto
  show ?thesis
  proof (cases "GetOk data ''crl_distribution_points''")
    case None
    with old show ?thesis by (simp add: CRL_valid_def put_urls_def replaced_def)
  next
    case (Some u)
    with assms(3) show ?thesis by (simp add: CRL_valid_def put_urls_def accepted_def)
  qed
qed

lemma reachable_CRL_valid: "reachable Parse s \<Longrightarrow> CRL_valid Parse s"
proof (induction rule: reachable.induct)
  case (never_written s)
  then show ?case by (simp add: CRL_valid_def)
next
  case (written s data r s')
  from pathWriteURL_storage [of Parse s data] written show ?case
    by (auto simp: CRL_valid_put_urls)
next
  case (availability s g p)
  then show ?case by (simp add: CRL_valid_def)
qed

lemmas handler_defs =
  pathWriteURL_def pathReadURL_def getURLs_def writeURLs_def Storage_Get_def Storage_Put_def
  StorageEntryJSON_def DecodeJSON_def GetOk_def structs_Map_def new_Storage_def
  sample_Storage_def sample_Parse_def Let_def

lemma reachable_sample_Storage: "reachable sample_Parse sample_Storage"
proof -
  have "cells new_Storage ''urls'' = None" by (simp add: new_Storage_def)
  then have "reachable sample_Parse new_Storage" by (rule reachable.never_written)
  moreover have "pathWriteURL sample_Parse new_Storage
      [''issuing_certificates'' \<mapsto> ''http://ca'', ''crl_distribution_points'' \<mapsto> ''http://crl'']
    = (Inr None, sample_Storage)"
    by (simp add: handler_defs)
  ultimately show ?thesis by (rule reachable.written)
qed

text \<open>
  On a storage the handler itself produced the stored CRL distribution points validate,
  so there the write of \<open>issuing_certificates = "http://a,http://b"\<close> succeeds and reads
  back, with the other two fields as they were.
\<close>

lemma round_trip_on_reachable:
  assumes "reachable Parse s" and "\<not> get_fails s" and "\<not> put_fails s"
  shows "\<exists>loaded s' fields.
           getURLs s = Inr loaded \<and>
           pathWriteURL Parse s [''issuing_certificates'' \<mapsto> ''http://a,http://b'']
             = (Inr None, s') \<and>
           pathReadURL s' = Inr (Some (Data fields)) \<and>
           fields ''issuing_certificates'' = Some [''http://a'', ''http://b''] \<and>
           fields ''crl_distribution_points''
             = Some (case loaded of None \<Rightarrow> [] | Some prior \<Rightarrow> CRLDistributionPoints prior) \<and>
           fields ''ocsp_servers''
             = Some (case loaded of None \<Rightarrow> [] | Some prior \<Rightarrow> OCSPServers prior)"
proof -
  let ?data = "[''issuing_certificates'' \<mapsto> ''http://a,http://b'']"
  from assms(1) have "CRL_valid Parse s" by (rule reachable_CRL_valid)
  with assms(2) obtain loaded where
    load: "getURLs s = Inr loaded" and
    crl: "validateURLs Parse (CRLDistributionPoints (or_empty loaded)) = None"
    using CRL_valid_loaded by blast
  let ?e = "replaced ?data (or_empty loaded)"
  from crl have "accepted Parse ?data (or_empty loaded)"
    by (simp add: accepted_def GetOk_def)
  with load assms(3) have w: "pathWriteURL Parse s ?data = (Inr None, put_urls s ?e)"
    by (simp add: pathWriteURL_accepted)
  from assms(2) have r: "pathReadURL (put_urls s ?e) = Inr (Some (Data (structs_Map ?e)))"
    by (rule pathReadURL_put_urls)
  have "structs_Map ?e ''issuing_certificates'' = Some [''http://a'', ''http://b'']"
    and "structs_Map ?e ''crl_distribution_points''
           = Some (case loaded of None \<Rightarrow> [] | Some prior \<Rightarrow> CRLDistributionPoints prior)"
    and "structs_Map ?e ''ocsp_servers''
           = Some (case loaded of None \<Rightarrow> [] | Some prior \<Rightarrow> OCSPServers prior)"
    by (simp_all add: structs_Map_def replaced_def GetOk_def or_empty_def split: option.splits)
  with load w r show ?thesis by blast
qed

section \<open>The claims\<close>

text \<open>
  C1: a write that names \<open>issuing_certificates\<close> (or \<open>ocsp_servers\<close>) is rejected exactly
  when an element of that field's own new list fails URL parsing, whatever the list of
  CRL distribution points holds. The source validates \<open>entries.CRLDistributionPoints\<close>
  in all three blocks (lines 124 and 140), so the own list is never looked at: on a
  storage without record the string \<open>http://a/%zz\<close>, which the parser rejects, is accepted
  and stored for either field.
\<close>

theorem own_list_not_validated:
  "validateURLs sample_Parse (Split ''http://a/%zz'' CHR '','')
     = Some (''http://a/%zz'', ''invalid URL escape'') \<and>
   pathWriteURL sample_Parse new_Storage [''issuing_certificates'' \<mapsto> ''http://a/%zz'']
     = (Inr None,
        new_Storage\<lparr>cells := [''urls'' \<mapsto> JSON \<lparr>IssuingCertificates = [''http://a/%zz''],
                                                  CRLDistributionPoints = [],
                                                  OCSPServers = []\<rparr>]\<rparr>) \<and>
   pathWriteURL sample_Parse new_Storage [''ocsp_servers'' \<mapsto> ''http://a/%zz'']
     = (Inr None,
        new_Storage\<lparr>cells := [''urls'' \<mapsto> JSON \<lparr>IssuingCertificates = [],
                                                  CRLDistributionPoints = [],
                                                  OCSPServers = [''http://a/%zz'']\<rparr>]\<rparr>)"
  by (simp add: handler_defs)

text \<open>
  C2: when the new list of some named field has an element that fails URL parsing, the
  handler does not save and answers with a validation error. In the source this holds
  for the CRL distribution points only: a request with a valid list for them and an
  invalid OCSP server passes the three validations, the record is saved and the answer
  is the one of a successful write.
\<close>

theorem invalid_ocsp_server_saved:
  "validateURLs sample_Parse (Split ''http://o/%zz'' CHR '','')
     = Some (''http://o/%zz'', ''invalid URL escape'') \<and>
   pathWriteURL sample_Parse sample_Storage
      [''crl_distribution_points'' \<mapsto> ''http://c'', ''ocsp_servers'' \<mapsto> ''http://o/%zz'']
     = (Inr None,
        sample_Storage\<lparr>cells := [''urls'' \<mapsto> JSON \<lparr>IssuingCertificates = [''http://ca''],
                                                     CRLDistributionPoints = [''http://c''],
                                                     OCSPServers = [''http://o/%zz'']\<rparr>]\<rparr>)"
  by (simp add: handler_defs)

text \<open>
  C3, as stated: writing \<open>ocsp_servers = "not a url!!"\<close> returns a validation error and
  leaves the stored record as it was. The string has no malformed escape and the parser
  accepts it, so no validation can reject it: on a storage that holds a record the write
  returns the result of a successful write, and the record stored afterwards holds the
  string and differs from the one stored before.
\<close>

theorem not_a_url_no_validation_error:
  "sample_Parse ''not a url!!'' = None \<and>
   pathWriteURL sample_Parse sample_Storage [''ocsp_servers'' \<mapsto> ''not a url!!'']
     = (Inr None,
        sample_Storage\<lparr>cells := [''urls'' \<mapsto> JSON \<lparr>IssuingCertificates = [''http://ca''],
                                                     CRLDistributionPoints = [''http://crl''],
                                                     OCSPServers = [''not a url!!'']\<rparr>]\<rparr>) \<and>
   getURLs (snd (pathWriteURL sample_Parse sample_Storage [''ocsp_servers'' \<mapsto> ''not a url!!'']))
     = Inr (Some \<lparr>IssuingCertificates = [''http://ca''],
                  CRLDistributionPoints = [''http://crl''],
                  OCSPServers = [''not a url!!'']\<rparr>) \<and>
   getURLs (snd (pathWriteURL sample_Parse sample_Storage [''ocsp_servers'' \<mapsto> ''not a url!!'']))
     \<noteq> getURLs sample_Storage"
  by (simp add: handler_defs)

text \<open>
  C3, amended: when the parser accepts the string \<open>not a url!!\<close>, the record loads (or
  none is stored), its CRL distribution points validate and the store takes the put,
  the write of \<open>ocsp_servers = "not a url!!"\<close> succeeds without a validation error, and
  the record stored afterwards holds the list of that one string for the OCSP servers
  and the other two lists as they were loaded.
\<close>

theorem not_a_url_accepted:
  assumes "Parse ''not a url!!'' = None"
    and "getURLs s = Inr loaded"
    and "validateURLs Parse (CRLDistributionPoints (or_empty loaded)) = None"
    and "\<not> put_fails s"
  shows "\<exists>s' entries'.
           pathWriteURL Parse s [''ocsp_servers'' \<mapsto> ''not a url!!''] = (Inr None, s') \<and>
           getURLs s' = Inr (Some entries') \<and>
           OCSPServers entries' = [''not a url!!''] \<and>
           IssuingCertificates entries'
             = (case loaded of None \<Rightarrow> [] | Some prior \<Rightarrow> IssuingCertificates prior) \<and>
           CRLDistributionPoints entries'
             = (case loaded of None \<Rightarrow> [] | Some prior \<Rightarrow> CRLDistributionPoints prior)"
proof -
  let ?data = "[''ocsp_servers'' \<mapsto> ''not a url!!'']"
  let ?e = "replaced ?data (or_empty loaded)"
  from assms(3) have "accepted Parse ?data (or_empty loaded)"
    by (simp add: accepted_def replaced_def GetOk_def)
  with assms(2,4) have w: "pathWriteURL Parse s ?data = (Inr None, put_urls s ?e)"
    by (simp add: pathWriteURL_accepted)
  from assms(2) have "\<not> get_fails s" by (rule getURLs_Inr_reads)
  then have l: "getURLs (put_urls s ?e) = Inr (Some ?e)"
    by (simp add: getURLs_put_urls)
  have "OCSPServers ?e = [''not a url!!'']"
    and "IssuingCertificates ?e
           = (case loaded of None \<Rightarrow> [] | Some prior \<Rightarrow> IssuingCertificates prior)"
    and "CRLDistributionPoints ?e
           = (case loaded of None \<Rightarrow> [] | Some prior \<Rightarrow> CRLDistributionPoints prior)"
    by (simp_all add: replaced_def GetOk_def or_empty_def split: option.splits)
  with w l show ?thesis by blast
qed

theorem not_a_url_accepted_witness:
  "sample_Parse ''not a url!!'' = None \<and>
   getURLs sample_Storage = Inr (Some \<lparr>IssuingCertificates = [''http://ca''],
                                        CRLDistributionPoints = [''http://crl''],
                                        OCSPServers = []\<rparr>) \<and>
   validateURLs sample_Parse [''http://crl''] = None \<and>
   \<not> put_fails sample_Storage \<and>
   (\<exists>s' entries'.
      pathWriteURL sample_Parse sample_Storage [''ocsp_servers'' \<mapsto> ''not a url!!'']
        = (Inr None, s') \<and>
      getURLs s' = Inr (Some entries') \<and>
      OCSPServers entries' = [''not a url!!''] \<and>
      IssuingCertificates entries' = [''http://ca''] \<and>
      CRLDistributionPoints entries' = [''http://crl''])"
proof -
  have h1: "sample_Parse ''not a url!!'' = None" by (simp add: sample_Parse_def)
  have h2: "getURLs sample_Storage = Inr (Some \<lparr>IssuingCertificates = [''http://ca''],
                                                 CRLDistributionPoints = [''http://crl''],
                                                 OCSPServers = []\<rparr>)"
    by (simp add: handler_defs)
  have h3: "validateURLs sample_Parse (CRLDistributionPoints (or_empty
              (Some \<lparr>IssuingCertificates = [''http://ca''],
                     CRLDistributionPoints = [''http://crl''],
                     OCSPServers = []\<rparr>))) = None"
    by (simp add: or_empty_def sample_Parse_def)
  have h4: "\<not> put_fails sample_Storage" by (simp add: sample_Storage_def)
  from not_a_url_accepted [of sample_Parse, OF h1 h2 h3 h4] h1 h2 h3 h4 show ?thesis
    by (simp add: or_empty_def)
qed

text \<open>
  C4, as stated: the stored list of a named field consists of the comma-separated tokens
  of the input, each trimmed of surrounding white space. The source stores the pieces of
  \<open>strings.Split\<close> as they are: for the input \<open>http://a/x ,http://b\<close> the first stored
  element ends with the space, and the stored record is not the one with the trimmed
  tokens.
\<close>

theorem tokens_not_trimmed:
  "getURLs (snd (pathWriteURL sample_Parse new_Storage
      [''crl_distribution_points'' \<mapsto> ''http://a/x ,http://b'']))
     = Inr (Some \<lparr>IssuingCertificates = [],
                  CRLDistributionPoints = [''http://a/x '', ''http://b''],
                  OCSPServers = []\<rparr>) \<and>
   spec_trimmed_Split ''http://a/x ,http://b'' = [''http://a/x'', ''http://b''] \<and>
   getURLs (snd (pathWriteURL sample_Parse new_Storage
      [''crl_distribution_points'' \<mapsto> ''http://a/x ,http://b'']))
     \<noteq> Inr (Some \<lparr>IssuingCertificates = [],
                  CRLDistributionPoints = spec_trimmed_Split ''http://a/x ,http://b'',
                  OCSPServers = []\<rparr>)"
  by (simp add: handler_defs spec_trimmed_Split_def TrimSpace_def isSpace_def)

text \<open>
  C4, amended: after a write that succeeds, the stored list of every field the request
  names consists of the pieces of the input string between its commas, in input order
  and untrimmed (\<open>Split_joined\<close> and \<open>Split_no_sep\<close> say what the pieces are).
\<close>

theorem stored_lists_are_split_pieces:
  assumes "pathWriteURL Parse s data = (Inr None, s')"
  shows "\<exists>entries'.
           getURLs s' = Inr (Some entries') \<and>
           (\<forall>urlsInt. GetOk data ''issuing_certificates'' = Some urlsInt \<longrightarrow>
              IssuingCertificates entries' = Split urlsInt CHR '','') \<and>
           (\<forall>urlsInt. GetOk data ''crl_distribution_points'' = Some urlsInt \<longrightarrow>
              CRLDistributionPoints entries' = Split urlsInt CHR '','') \<and>
           (\<forall>urlsInt. GetOk data ''ocsp_servers'' = Some urlsInt \<longrightarrow>
              OCSPServers entries' = Split urlsInt CHR '','')"
proof -
  from pathWriteURL_succeeds [OF assms] obtain loaded where
    load: "getURLs s = Inr loaded" and s': "s' = put_urls s (replaced data (or_empty loaded))"
    by blast
  from load have "\<not> get_fails s" by (rule getURLs_Inr_reads)
  with s' have "getURLs s' = Inr (Some (replaced data (or_empty loaded)))"
    by (simp add: getURLs_put_urls)
  then show ?thesis by (simp add: replaced_def)
qed

theorem stored_lists_are_split_pieces_witness:
  "pathWriteURL sample_Parse new_Storage [''crl_distribution_points'' \<mapsto> ''http://a/x ,http://b'']
     = (Inr None,
        new_Storage\<lparr>cells := [''urls'' \<mapsto> JSON \<lparr>IssuingCertificates = [],
                                 CRLDistributionPoints = [''http://a/x '', ''http://b''],
                                 OCSPServers = []\<rparr>]\<rparr>) \<and>
   (\<exists>entries'.
      getURLs (new_Storage\<lparr>cells := [''urls'' \<mapsto> JSON \<lparr>IssuingCertificates = [],
                                 CRLDistributionPoints = [''http://a/x '', ''http://b''],
                                 OCSPServers = []\<rparr>]\<rparr>) = Inr (Some entries') \<and>
      CRLDistributionPoints entries' = [''http://a/x '', ''http://b''])"
proof -
  have w: "pathWriteURL sample_Parse new_Storage
             [''crl_distribution_points'' \<mapsto> ''http://a/x ,http://b'']
     = (Inr None,
        new_Storage\<lparr>cells := [''urls'' \<mapsto> JSON \<lparr>IssuingCertificates = [],
                                 CRLDistributionPoints = [''http://a/x '', ''http://b''],
                                 OCSPServers = []\<rparr>]\<rparr>)"
    by (simp add: handler_defs)
  from stored_lists_are_split_pieces [OF w] w show ?thesis
    by (auto simp: GetOk_def)
qed

text \<open>
  C5: after a successful write, every field the request does not name holds what was
  loaded before the write, or the empty list when no record was stored.
\<close>

theorem unnamed_fields_kept:
  assumes "pathWriteURL Parse s data = (Inr None, s')"
  shows "\<exists>loaded entries'.
           getURLs s = Inr loaded \<and> getURLs s' = Inr (Some entries') \<and>
           (GetOk data ''issuing_certificates'' = None \<longrightarrow>
              IssuingCertificates entries' =
                (case loaded of None \<Rightarrow> [] | Some prior \<Rightarrow> IssuingCertificates prior)) \<and>
           (GetOk data ''crl_distribution_points'' = None \<longrightarrow>
              CRLDistributionPoints entries' =
                (case loaded of None \<Rightarrow> [] | Some prior \<Rightarrow> CRLDistributionPoints prior)) \<and>
           (GetOk data ''ocsp_servers'' = None \<longrightarrow>
              OCSPServers entries' =
                (case loaded of None \<Rightarrow> [] | Some prior \<Rightarrow> OCSPServers prior))"
proof -
  from pathWriteURL_succeeds [OF assms] obtain loaded where
    load: "getURLs s = Inr loaded" and s': "s' = put_urls s (replaced data (or_empty loaded))"
    by blast
  from load have "\<not> get_fails s" by (rule getURLs_Inr_reads)
  with s' have "getURLs s' = Inr (Some (replaced data (or_empty loaded)))"
    by (simp add: getURLs_put_urls)
  with load show ?thesis
    by (cases loaded) (simp_all add: replaced_def or_empty_def)
qed

theorem unnamed_fields_kept_witness:
  "pathWriteURL sample_Parse sample_Storage [''ocsp_servers'' \<mapsto> ''http://o'']
     = (Inr None,
        sample_Storage\<lparr>cells := [''urls'' \<mapsto> JSON \<lparr>IssuingCertificates = [''http://ca''],
                                                     CRLDistributionPoints = [''http://crl''],
                                                     OCSPServers = [''http://o'']\<rparr>]\<rparr>) \<and>
   (\<exists>entries'.
      getURLs (sample_Storage\<lparr>cells := [''urls'' \<mapsto> JSON \<lparr>IssuingCertificates = [''http://ca''],
                                                     CRLDistributionPoints = [''http://crl''],
                                                     OCSPServers = [''http://o'']\<rparr>]\<rparr>)
        = Inr (Some entries') \<and>
      IssuingCertificates entries' = [''http://ca''] \<and>
      CRLDistributionPoints entries' = [''http://crl''])"
proof -
  have w: "pathWriteURL sample_Parse sample_Storage [''ocsp_servers'' \<mapsto> ''http://o'']
     = (Inr None,
        sample_Storage\<lparr>cells := [''urls'' \<mapsto> JSON \<lparr>IssuingCertificates = [''http://ca''],
                                                     CRLDistributionPoints = [''http://crl''],
                                                     OCSPServers = [''http://o'']\<rparr>]\<rparr>)"
    by (simp add: handler_defs)
  have l: "getURLs sample_Storage = Inr (Some \<lparr>IssuingCertificates = [''http://ca''],
                                                CRLDistributionPoints = [''http://crl''],
                                                OCSPServers = []\<rparr>)"
    by (simp add: handler_defs)
  from unnamed_fields_kept [OF w] w l show ?thesis
    by (auto simp: GetOk_def)
qed


text \<open>
  C7: when nothing was ever written under the key \<open>urls\<close> and the store does not fail,
  the read returns the empty result and no error.
\<close>

theorem read_before_any_write:
  assumes "cells s ''urls'' = None" and "\<not> get_fails s"
  shows "pathReadURL s = Inr None"
  using assms by (simp add: pathReadURL_def getURLs_eq)

theorem read_before_any_write_witness:
  "cells new_Storage ''urls'' = None \<and> \<not> get_fails new_Storage \<and>
   pathReadURL new_Storage = Inr None"
proof -
  have h1: "cells new_Storage ''urls'' = None" and h2: "\<not> get_fails new_Storage"
    by (simp_all add: new_Storage_def)
  from read_before_any_write [OF h1 h2] h1 h2 show ?thesis by simp
qed

text \<open>
  C8: writing the empty string for \<open>crl_distribution_points\<close> succeeds and the field then
  reads back as the list of one empty string, not as the empty list. The parser accepts
  the empty string, the record loads and the store takes the put.
\<close>

theorem empty_crl_distribution_points:
  assumes "Parse [] = None" and "getURLs s = Inr loaded" and "\<not> put_fails s"
  shows "\<exists>s' fields.
           pathWriteURL Parse s [''crl_distribution_points'' \<mapsto> []] = (Inr None, s') \<and>
           pathReadURL s' = Inr (Some (Data fields)) \<and>
           fields ''crl_distribution_points'' = Some [[]] \<and>
           fields ''crl_distribution_points'' \<noteq> Some []"
proof -
  let ?data = "[''crl_distribution_points'' \<mapsto> []]"
  let ?e = "replaced ?data (or_empty loaded)"
  from assms(1) have "accepted Parse ?data (or_empty loaded)"
    by (simp add: accepted_def replaced_def GetOk_def)
  with assms(2,3) have w: "pathWriteURL Parse s ?data = (Inr None, put_urls s ?e)"
    by (simp add: pathWriteURL_accepted)
  from assms(2) have "\<not> get_fails s" by (rule getURLs_Inr_reads)
  then have r: "pathReadURL (put_urls s ?e) = Inr (Some (Data (structs_Map ?e)))"
    by (rule pathReadURL_put_urls)
  have "structs_Map ?e ''crl_distribution_points'' = Some [[]]"
    by (simp add: structs_Map_def replaced_def GetOk_def)
  with w r show ?thesis by auto
qed

theorem empty_crl_distribution_points_witness:
  "sample_Parse [] = None \<and>
   getURLs sample_Storage = Inr (Some \<lparr>IssuingCertificates = [''http://ca''],
                                        CRLDistributionPoints = [''http://crl''],
                                        OCSPServers = []\<rparr>) \<and>
   \<not> put_fails sample_Storage \<and>
   (\<exists>s' fields.
      pathWriteURL sample_Parse sample_Storage [''crl_distribution_points'' \<mapsto> []]
        = (Inr None, s') \<and>
      pathReadURL s' = Inr (Some (Data fields)) \<and>
      fields ''crl_distribution_points'' = Some [[]] \<and>
      fields ''crl_distribution_points'' \<noteq> Some [])"
proof -
  have h1: "sample_Parse [] = None" by (simp add: sample_Parse_def)
  have h2: "getURLs sample_Storage = Inr (Some \<lparr>IssuingCertificates = [''http://ca''],
                                                 CRLDistributionPoints = [''http://crl''],
                                                 OCSPServers = []\<rparr>)"
    by (simp add: handler_defs)
  have h3: "\<not> put_fails sample_Storage" by (simp add: sample_Storage_def)
  show ?thesis
    by (rule conjI [OF h1 conjI [OF h2 conjI [OF h3
          empty_crl_distribution_points [of sample_Parse, OF h1 h2 h3]]]])
qed

text \<open>
  C9: the write is idempotent on the stored state: the same request performed twice in
  succession leaves the storage as performing it once does. This holds for every
  request and every storage, also where the write fails.
\<close>

theorem pathWriteURL_idempotent:
  "snd (pathWriteURL Parse (snd (pathWriteURL Parse s data)) data) = snd (pathWriteURL Parse s data)"
proof -
  consider (same) "snd (pathWriteURL Parse s data) = s"
    | (saved) loaded where "getURLs s = Inr loaded" "accepted Parse data (or_empty loaded)"
        "\<not> put_fails s"
        "pathWriteURL Parse s data = (Inr None, put_urls s (replaced data (or_empty loaded)))"
    using pathWriteURL_storage [of Parse s data] by blast
  then show ?thesis
  proof cases
    case same
    then show ?thesis by simp
  next
    case saved
    let ?e = "replaced data (or_empty loaded)"
    let ?s1 = "put_urls s ?e"
    from saved(1) have reads: "\<not> get_fails s" by (rule getURLs_Inr_reads)
    then have load1: "getURLs ?s1 = Inr (Some ?e)" by (simp add: getURLs_put_urls)
    from saved(2) have acc1: "accepted Parse data (or_empty (Some ?e))"
      by (simp add: or_empty_def accepted_replaced)
    from saved(3) have put1: "\<not> put_fails ?s1" by (simp add: put_urls_def)
    have "pathWriteURL Parse ?s1 data = (Inr None, put_urls ?s1 (replaced data (or_empty (Some ?e))))"
      using pathWriteURL_accepted [OF load1 acc1] put1 by simp
    then have "snd (pathWriteURL Parse ?s1 data) = ?s1"
      by (simp add: or_empty_def replaced_idem put_urls_twice)
    with saved(4) show ?thesis by simp
  qed
qed

text \<open>
  C10: a write that names none of the three fields succeeds and saves. When no record
  was stored before, it stores the record of three empty lists, and a read after it
  returns the three fields, each the empty list, not the empty result.
\<close>

theorem write_without_fields:
  assumes "getURLs s = Inr loaded" and "\<not> put_fails s"
    and "GetOk data ''issuing_certificates'' = None"
    and "GetOk data ''crl_distribution_points'' = None"
    and "GetOk data ''ocsp_servers'' = None"
  shows "pathWriteURL Parse s data
           = (Inr None, s\<lparr>cells := (cells s)(''urls'' \<mapsto> JSON (or_empty loaded))\<rparr>) \<and>
         (loaded = None \<longrightarrow>
            or_empty loaded
              = \<lparr>IssuingCertificates = [], CRLDistributionPoints = [], OCSPServers = []\<rparr> \<and>
            pathReadURL (s\<lparr>cells := (cells s)(''urls'' \<mapsto> JSON (or_empty loaded))\<rparr>)
              = Inr (Some (Data [''issuing_certificates'' \<mapsto> [],
                                 ''crl_distribution_points'' \<mapsto> [],
                                 ''ocsp_servers'' \<mapsto> []])))"
proof -
  from assms(3-5) have acc: "accepted Parse data (or_empty loaded)"
    by (simp add: accepted_def)
  from assms(3-5) have same: "replaced data (or_empty loaded) = or_empty loaded"
    by (simp add: replaced_def)
  from assms(1) have reads: "\<not> get_fails s" by (rule getURLs_Inr_reads)
  from pathWriteURL_accepted [OF assms(1) acc] assms(2) same
  have w: "pathWriteURL Parse s data
             = (Inr None, s\<lparr>cells := (cells s)(''urls'' \<mapsto> JSON (or_empty loaded))\<rparr>)"
    by (simp add: put_urls_def)
  from pathReadURL_put_urls [OF reads, of "or_empty loaded"]
  have "loaded = None \<longrightarrow>
          or_empty loaded
            = \<lparr>IssuingCertificates = [], CRLDistributionPoints = [], OCSPServers = []\<rparr> \<and>
          pathReadURL (s\<lparr>cells := (cells s)(''urls'' \<mapsto> JSON (or_empty loaded))\<rparr>)
            = Inr (Some (Data [''issuing_certificates'' \<mapsto> [],
                               ''crl_distribution_points'' \<mapsto> [],
                               ''ocsp_servers'' \<mapsto> []]))"
    by (auto simp add: put_urls_def or_empty_def structs_Map_def)
  with w show ?thesis by (rule conjI)
qed

theorem write_without_fields_witness:
  "getURLs new_Storage = Inr None \<and> \<not> put_fails new_Storage \<and>
   pathWriteURL sample_Parse new_Storage Map.empty
     = (Inr None,
        new_Storage\<lparr>cells := [''urls'' \<mapsto> JSON \<lparr>IssuingCertificates = [],
                                                  CRLDistributionPoints = [],
                                                  OCSPServers = []\<rparr>]\<rparr>) \<and>
   pathReadURL (new_Storage\<lparr>cells := [''urls'' \<mapsto> JSON \<lparr>IssuingCertificates = [],
                                                  CRLDistributionPoints = [],
                                                  OCSPServers = []\<rparr>]\<rparr>)
     = Inr (Some (Data [''issuing_certificates'' \<mapsto> [],
                        ''crl_distribution_points'' \<mapsto> [],
                        ''ocsp_servers'' \<mapsto> []]))"
proof -
  have h1: "getURLs new_Storage = Inr None" and h2: "\<not> put_fails new_Storage"
    by (simp_all add: handler_defs)
  have h3: "GetOk Map.empty ''issuing_certificates'' = None"
    and h4: "GetOk Map.empty ''crl_distribution_points'' = None"
    and h5: "GetOk Map.empty ''ocsp_servers'' = None"
    by (simp_all add: GetOk_def)
  from write_without_fields [OF h1 h2 h3 h4 h5, of sample_Parse] h1 h2 show ?thesis
    by (simp add: or_empty_def new_Storage_def)
qed

end
